theory Spec2Isabelle
  imports Main "HOL-Library.Sublist" "HOL-Library.AList"
begin

section \<open>Python values and exceptions\<close>

text \<open>
  nanocode is a single Python module. Every value it handles at run time (tool arguments,
  provider responses, conversation turns) is a JSON value that \<^verbatim>\<open>json.loads\<close> produced
  or that the module built from dict and list literals. \<open>json\<close> is that value space.
  A dict is an association list in insertion order; lookup takes the first binding of a
  key. Floating-point numbers are left out.
\<close>

datatype json =
    JNull
  | JBool bool
  | JInt int
  | JStr string
  | JList "json list"
  | JDict "(string \<times> json) list"

text \<open>\<^verbatim>\<open>repr\<close> of a string without characters to escape: the string in quotes.\<close>

definition py_quote :: "string \<Rightarrow> string" where
  "py_quote s = CHR 0x27 # s @ [CHR 0x27]"

text \<open>
  The exceptions the module can meet, all of them subclasses of Python's \<^verbatim>\<open>Exception\<close>
  (the class that \<^verbatim>\<open>except Exception\<close> catches). \<open>TransportError\<close> stands for what
  \<^verbatim>\<open>urllib.request.urlopen\<close> and \<^verbatim>\<open>json.loads\<close> raise on a failed exchange.
  \<open>KeyError\<close> carries the \<^verbatim>\<open>repr\<close> of the missing key, which is how Python renders it.
\<close>

datatype exn =
    KeyError string
  | TypeError string
  | IndexError string
  | AttributeError string
  | FileNotFoundError string
  | OSError string
  | ReError string
  | TransportError string

text \<open>\<^verbatim>\<open>str(err)\<close>: the text Python renders for an exception.\<close>

fun exn_str :: "exn \<Rightarrow> string" where
  "exn_str (KeyError k) = k"
| "exn_str (TypeError m) = m"
| "exn_str (IndexError m) = m"
| "exn_str (AttributeError m) = m"
| "exn_str (FileNotFoundError p) = ''[Errno 2] No such file or directory: '' @ py_quote p"
| "exn_str (OSError m) = m"
| "exn_str (ReError m) = m"
| "exn_str (TransportError m) = m"


subsection \<open>Operators on values\<close>

text \<open>Truthiness, as \<^verbatim>\<open>not v\<close> and \<^verbatim>\<open>v or d\<close> test it.\<close>

fun py_truthy :: "json \<Rightarrow> bool" where
  "py_truthy JNull = False"
| "py_truthy (JBool b) = b"
| "py_truthy (JInt n) = (n \<noteq> 0)"
| "py_truthy (JStr s) = (s \<noteq> [])"
| "py_truthy (JList xs) = (xs \<noteq> [])"
| "py_truthy (JDict kvs) = (kvs \<noteq> [])"

text \<open>
  \<^verbatim>\<open>k in v\<close> for a string \<open>k\<close>: key membership in a dict, element membership in a
  list, substring test in a string, \<^verbatim>\<open>TypeError\<close> on a value that is not iterable.
\<close>

fun py_in :: "string \<Rightarrow> json \<Rightarrow> exn + bool" where
  "py_in k (JDict kvs) = Inr (k \<in> set (map fst kvs))"
| "py_in k (JList xs) = Inr (JStr k \<in> set xs)"
| "py_in k (JStr s) = Inr (sublist k s)"
| "py_in k v = Inl (TypeError ''argument is not iterable'')"

text \<open>\<^verbatim>\<open>v[k]\<close> for a string \<open>k\<close>.\<close>

fun py_getitem :: "json \<Rightarrow> string \<Rightarrow> exn + json" where
  "py_getitem (JDict kvs) k = (case map_of kvs k of Some x \<Rightarrow> Inr x | None \<Rightarrow> Inl (KeyError (py_quote k)))"
| "py_getitem (JList xs) k = Inl (TypeError ''list indices must be integers or slices, not str'')"
| "py_getitem (JStr s) k = Inl (TypeError ''string indices must be integers, not str'')"
| "py_getitem v k = Inl (TypeError ''object is not subscriptable'')"

text \<open>\<^verbatim>\<open>v.get(k, d)\<close>: only a dict has the method.\<close>

fun py_get :: "json \<Rightarrow> string \<Rightarrow> json \<Rightarrow> exn + json" where
  "py_get (JDict kvs) k d = (case map_of kvs k of Some x \<Rightarrow> Inr x | None \<Rightarrow> Inr d)"
| "py_get v k d = Inl (AttributeError ''object has no attribute get'')"

text \<open>\<^verbatim>\<open>v[0]\<close>.\<close>

fun py_first :: "json \<Rightarrow> exn + json" where
  "py_first (JList []) = Inl (IndexError ''list index out of range'')"
| "py_first (JList (x # xs)) = Inr x"
| "py_first (JStr []) = Inl (IndexError ''string index out of range'')"
| "py_first (JStr (c # cs)) = Inr (JStr [c])"
| "py_first (JDict kvs) = Inl (KeyError ''0'')"
| "py_first v = Inl (TypeError ''object is not subscriptable'')"

text \<open>
  \<^verbatim>\<open>for x in v\<close>: the elements of a list, the characters of a string, the keys of a dict.
\<close>

fun py_iter :: "json \<Rightarrow> exn + json list" where
  "py_iter (JList xs) = Inr xs"
| "py_iter (JStr s) = Inr (map (\<lambda>c. JStr [c]) s)"
| "py_iter (JDict kvs) = Inr (map (\<lambda>kv. JStr (fst kv)) kvs)"
| "py_iter v = Inl (TypeError ''object is not iterable'')"

text \<open>\<^verbatim>\<open>v + "suffix"\<close>: concatenation when \<open>v\<close> is a string.\<close>

fun py_add_str :: "json \<Rightarrow> string \<Rightarrow> exn + json" where
  "py_add_str (JStr s) t = Inr (JStr (s @ t))"
| "py_add_str v t = Inl (TypeError ''unsupported operand type(s) for +'')"

subsection \<open>Strings\<close>

text \<open>
  A string is a list of characters; a character stands for a code point below 256.
  \<^verbatim>\<open>str.strip\<close> removes Unicode whitespace, which in that range is the set below.
\<close>

definition newline :: char where
  "newline = CHR 0x0A"

definition py_isspace :: "char \<Rightarrow> bool" where
  "py_isspace c =
     (let n = (of_char c :: nat)
      in (9 \<le> n \<and> n \<le> 13) \<or> (28 \<le> n \<and> n \<le> 32) \<or> n = 133 \<or> n = 160)"

definition py_rstrip :: "string \<Rightarrow> string" where
  "py_rstrip s = rev (dropWhile py_isspace (rev s))"

definition py_strip :: "string \<Rightarrow> string" where
  "py_strip s = dropWhile py_isspace (py_rstrip s)"

text \<open>\<^verbatim>\<open>sep.join(xs)\<close>.\<close>

fun py_join :: "string \<Rightarrow> string list \<Rightarrow> string" where
  "py_join sep [] = []"
| "py_join sep [x] = x"
| "py_join sep (x # y # ys) = x @ sep @ py_join sep (y # ys)"

text \<open>\<^verbatim>\<open>s or d\<close> on strings.\<close>

definition py_or :: "string \<Rightarrow> string \<Rightarrow> string" where
  "py_or s d = (if s = [] then d else s)"

text \<open>Decimal rendering of integers, and right alignment in a field (\<^verbatim>\<open>{n:4}\<close>).\<close>

fun str_of_nat :: "nat \<Rightarrow> string" where
  "str_of_nat n =
     (if n < 10 then [char_of (48 + n)]
      else str_of_nat (n div 10) @ [char_of (48 + n mod 10)])"

declare str_of_nat.simps [simp del]

definition str_of_int :: "int \<Rightarrow> string" where
  "str_of_int i = (if i < 0 then CHR ''-'' # str_of_nat (nat (- i)) else str_of_nat (nat i))"

definition pad_left :: "nat \<Rightarrow> string \<Rightarrow> string" where
  "pad_left w s = replicate (w - length s) CHR '' '' @ s"

text \<open>
  \<^verbatim>\<open>text.count(old)\<close>: the number of non-overlapping occurrences, found from left to
  right; the empty string occurs between all characters and at both ends.
\<close>

fun count_from :: "string \<Rightarrow> string \<Rightarrow> nat" where
  "count_from old [] = 0"
| "count_from old (c # cs) =
     (if prefix old (c # cs) then Suc (count_from old (drop (length old - 1) cs))
      else count_from old cs)"

definition py_count :: "string \<Rightarrow> string \<Rightarrow> nat" where
  "py_count txt old = (if old = [] then Suc (length txt) else count_from old txt)"

text \<open>
  \<^verbatim>\<open>text.replace(old, new, limit)\<close>: \<open>limit\<close> is \<open>None\<close> for the call without a
  third argument. Occurrences are replaced from left to right without overlap. With an
  empty \<open>old\<close>, \<open>new\<close> is inserted before each character and at the end.
\<close>

fun replace_from :: "string \<Rightarrow> string \<Rightarrow> nat option \<Rightarrow> string \<Rightarrow> string" where
  "replace_from old new limit [] = []"
| "replace_from old new limit (c # cs) =
     (if limit = Some 0 then c # cs
      else if prefix old (c # cs)
        then new @ replace_from old new (map_option (\<lambda>k. k - 1) limit) (drop (length old - 1) cs)
      else c # replace_from old new limit cs)"

fun insert_between :: "string \<Rightarrow> nat option \<Rightarrow> string \<Rightarrow> string" where
  "insert_between new limit [] = (if limit = Some 0 then [] else new)"
| "insert_between new limit (c # cs) =
     (if limit = Some 0 then c # cs
      else new @ c # insert_between new (map_option (\<lambda>k. k - 1) limit) cs)"

definition py_replace :: "string \<Rightarrow> string \<Rightarrow> string \<Rightarrow> nat option \<Rightarrow> string" where
  "py_replace txt old new limit =
     (if old = [] then insert_between new limit txt else replace_from old new limit txt)"

text \<open>
  Iterating over an open text file yields its lines, each with its line end.
\<close>

fun py_lines :: "string \<Rightarrow> string list" where
  "py_lines [] = []"
| "py_lines (c # cs) =
     (if c = newline then [c] # py_lines cs
      else (case py_lines cs of [] \<Rightarrow> [[c]] | l # ls \<Rightarrow> (c # l) # ls))"

text \<open>
  \<^verbatim>\<open>xs[a:b]\<close> for integers: a negative index counts from the end, and both are
  clamped to the list.
\<close>

definition slice_index :: "nat \<Rightarrow> int \<Rightarrow> nat" where
  "slice_index n i = (if i < 0 then nat (max 0 (int n + i)) else min n (nat i))"

definition py_slice :: "'a list \<Rightarrow> int \<Rightarrow> int \<Rightarrow> 'a list" where
  "py_slice xs a b =
     (let lo = slice_index (length xs) a; hi = slice_index (length xs) b
      in take (hi - lo) (drop lo xs))"

section \<open>The environment of the tools\<close>

text \<open>
  The file store maps a path to the text of the regular file there. Opening a path for
  reading fails when the store has no file at it (a directory, a missing path); opening a
  path for writing creates or truncates the file. Permissions and decoding errors are
  outside this model. A path that is an integer would be a file descriptor: it is
  modelled as the \<^verbatim>\<open>OSError\<close> of a descriptor that is not open.
\<close>

type_synonym fs = "string \<Rightarrow> string option"

fun open_read :: "fs \<Rightarrow> json \<Rightarrow> exn + string" where
  "open_read store (JStr p) =
     (case store p of None \<Rightarrow> Inl (FileNotFoundError p) | Some txt \<Rightarrow> Inr txt)"
| "open_read store (JInt n) = Inl (OSError ''[Errno 9] Bad file descriptor'')"
| "open_read store (JBool b) = Inl (OSError ''[Errno 9] Bad file descriptor'')"
| "open_read store v = Inl (TypeError ''expected str, bytes or os.PathLike object'')"

fun open_write :: "fs \<Rightarrow> json \<Rightarrow> exn + (string \<times> fs)" where
  "open_write store (JStr p) = Inr (p, store(p \<mapsto> []))"
| "open_write store (JInt n) = Inl (OSError ''[Errno 9] Bad file descriptor'')"
| "open_write store (JBool b) = Inl (OSError ''[Errno 9] Bad file descriptor'')"
| "open_write store v = Inl (TypeError ''expected str, bytes or os.PathLike object'')"

text \<open>
  A subprocess, as the shell tool observes it: the lines it writes to the pipe, each with
  the second (counted from the start of the process) at which \<^verbatim>\<open>readline\<close> can return
  it; the second at which the pipe reaches end of file (\<open>None\<close>: some process keeps
  it open for ever); the second at which the shell process itself exits (\<open>None\<close>:
  never).
\<close>

record proc =
  out_lines :: "(nat \<times> string) list"
  eof_at :: "nat option"
  exit_at :: "nat option"

text \<open>
  What the module takes from libraries and from the operating system, as parameters:
  \<^item> \<open>glob_paths\<close>: \<^verbatim>\<open>glob.glob(pattern, recursive=True)\<close> over the file store;
  \<^item> \<open>getmtime\<close>: \<^verbatim>\<open>os.path.getmtime\<close>;
  \<^item> \<open>re_compile\<close>: \<^verbatim>\<open>re.compile\<close> on a string, giving either \<^verbatim>\<open>re.error\<close> or the
    predicate \<^verbatim>\<open>pattern.search(line) is not None\<close>;
  \<^item> \<open>popen\<close>: \<^verbatim>\<open>subprocess.Popen(cmd, shell=True, ...)\<close>, giving the behaviour of the
    started process and the file store it leaves behind.
\<close>

record env =
  glob_paths :: "fs \<Rightarrow> string \<Rightarrow> string list"
  getmtime :: "string \<Rightarrow> int"
  re_compile :: "string \<Rightarrow> exn + (string \<Rightarrow> bool)"
  popen :: "fs \<Rightarrow> json \<Rightarrow> exn + (proc \<times> fs)"

section \<open>The tools\<close>

text \<open>
  A tool takes the environment, the file store and the argument value. It returns
  \<open>None\<close> when it never returns, and otherwise the string it returns or the exception it
  raises, with the file store it leaves.
\<close>

type_synonym tool = "env \<Rightarrow> fs \<Rightarrow> json \<Rightarrow> ((exn + string) \<times> fs) option"

subsection \<open>read (lines 71 to 76)\<close>

text \<open>
  \<^verbatim>\<open>offset + limit\<close> and the slice need integers; \<^verbatim>\<open>bool\<close> is a subclass of
  \<^verbatim>\<open>int\<close> in Python.
\<close>

fun py_int :: "json \<Rightarrow> exn + int" where
  "py_int (JInt n) = Inr n"
| "py_int (JBool b) = Inr (if b then 1 else 0)"
| "py_int v = Inl (TypeError ''slice indices must be integers'')"

fun number_lines :: "int \<Rightarrow> nat \<Rightarrow> string list \<Rightarrow> string" where
  "number_lines offset idx [] = []"
| "number_lines offset idx (line # rest) =
     pad_left 4 (str_of_int (offset + int idx + 1)) @ ''| '' @ line
       @ number_lines offset (Suc idx) rest"

definition read :: tool where
  "read e store args =
     Some (case py_getitem args ''path'' of Inl err \<Rightarrow> (Inl err, store) | Inr path \<Rightarrow>
           case open_read store path of Inl err \<Rightarrow> (Inl err, store) | Inr txt \<Rightarrow>
           let lines = py_lines txt in
           case py_get args ''offset'' (JInt 0) of Inl err \<Rightarrow> (Inl err, store) | Inr off \<Rightarrow>
           case py_get args ''limit'' (JInt (int (length lines))) of
             Inl err \<Rightarrow> (Inl err, store) | Inr lim \<Rightarrow>
           case py_int off of Inl err \<Rightarrow> (Inl err, store) | Inr offset \<Rightarrow>
           case py_int lim of Inl err \<Rightarrow> (Inl err, store) | Inr limit \<Rightarrow>
           (Inr (number_lines offset 0 (py_slice lines offset (offset + limit))), store))"

subsection \<open>write (lines 79 to 82)\<close>

text \<open>
  The file is opened, and so truncated, before \<^verbatim>\<open>args["content"]\<close> is read.
\<close>

definition write_tool :: tool where
  "write_tool e store args =
     Some (case py_getitem args ''path'' of Inl err \<Rightarrow> (Inl err, store) | Inr path \<Rightarrow>
           case open_write store path of Inl err \<Rightarrow> (Inl err, store) | Inr (p, store') \<Rightarrow>
           case py_getitem args ''content'' of Inl err \<Rightarrow> (Inl err, store') | Inr content \<Rightarrow>
           case content of
             JStr c \<Rightarrow> (Inr ''ok'', store'(p \<mapsto> c))
           | _ \<Rightarrow> (Inl (TypeError ''write() argument must be str''), store'))"

subsection \<open>edit (lines 85 to 98)\<close>

definition edit :: tool where
  "edit e store args =
     Some (case py_getitem args ''path'' of Inl err \<Rightarrow> (Inl err, store) | Inr path \<Rightarrow>
           case open_read store path of Inl err \<Rightarrow> (Inl err, store) | Inr txt \<Rightarrow>
           case py_getitem args ''old'' of Inl err \<Rightarrow> (Inl err, store) | Inr old_v \<Rightarrow>
           case py_getitem args ''new'' of Inl err \<Rightarrow> (Inl err, store) | Inr new_v \<Rightarrow>
           case old_v of
             JStr old \<Rightarrow>
               if \<not> sublist old txt then (Inr ''error: old_string not found'', store)
               else
                 let count = py_count txt old in
                 case py_get args ''all'' JNull of Inl err \<Rightarrow> (Inl err, store) | Inr all_v \<Rightarrow>
                 if \<not> py_truthy all_v \<and> count > 1
                 then (Inr (''error: old_string appears '' @ str_of_nat count
                            @ '' times, must be unique (use all=true)''), store)
                 else
                   (case new_v of
                      JStr new \<Rightarrow>
                        let replacement =
                              (if py_truthy all_v then py_replace txt old new None
                               else py_replace txt old new (Some 1))
                        in (case open_write store path of
                              Inl err \<Rightarrow> (Inl err, store)
                            | Inr (p, store') \<Rightarrow> (Inr ''ok'', store'(p \<mapsto> replacement)))
                    | _ \<Rightarrow> (Inl (TypeError ''replace() argument 2 must be str''), store))
           | _ \<Rightarrow> (Inl (TypeError ''in <string> requires string as left operand''), store))"

subsection \<open>glob (lines 101 to 109)\<close>

fun py_concat :: "json \<Rightarrow> json \<Rightarrow> exn + string" where
  "py_concat (JStr a) (JStr b) = Inr (a @ b)"
| "py_concat a b = Inl (TypeError ''unsupported operand type(s) for +'')"

definition mtime_key :: "env \<Rightarrow> fs \<Rightarrow> string \<Rightarrow> int" where
  "mtime_key e store f = (if store f \<noteq> None then getmtime e f else 0)"

definition glob :: tool where
  "glob e store args =
     Some (case py_get args ''path'' (JStr ''.'') of Inl err \<Rightarrow> (Inl err, store) | Inr path \<Rightarrow>
           case py_concat path (JStr ''/'') of Inl err \<Rightarrow> (Inl err, store) | Inr dir \<Rightarrow>
           case py_getitem args ''pat'' of Inl err \<Rightarrow> (Inl err, store) | Inr pat \<Rightarrow>
           case py_concat (JStr dir) pat of Inl err \<Rightarrow> (Inl err, store) | Inr joined \<Rightarrow>
           let pattern = py_replace joined ''//'' ''/'' None;
               files = glob_paths e store pattern;
               sorted_files = sort_key (\<lambda>f. - mtime_key e store f) files
           in (Inr (py_or (py_join [newline] sorted_files) ''none''), store))"

subsection \<open>grep (lines 112 to 122)\<close>

text \<open>
  The inner loop over the lines of one file, counted from 1, and the outer loop over the
  paths. A path that cannot be opened raises inside the \<^verbatim>\<open>try\<close> block, and the handler
  passes on to the next path.
\<close>

fun grep_file :: "(string \<Rightarrow> bool) \<Rightarrow> string \<Rightarrow> nat \<Rightarrow> string list \<Rightarrow> string list \<Rightarrow> string list" where
  "grep_file search filepath line_num [] hits = hits"
| "grep_file search filepath line_num (line # rest) hits =
     grep_file search filepath (Suc line_num) rest
       (if search line
        then hits @ [filepath @ '':'' @ str_of_nat line_num @ '':'' @ py_rstrip line]
        else hits)"

fun grep_paths :: "(string \<Rightarrow> bool) \<Rightarrow> fs \<Rightarrow> string list \<Rightarrow> string list \<Rightarrow> string list" where
  "grep_paths search store [] hits = hits"
| "grep_paths search store (filepath # rest) hits =
     grep_paths search store rest
       (case open_read store (JStr filepath) of
          Inl err \<Rightarrow> hits
        | Inr txt \<Rightarrow> grep_file search filepath 1 (py_lines txt) hits)"

definition grep :: tool where
  "grep e store args =
     Some (case py_getitem args ''pat'' of Inl err \<Rightarrow> (Inl err, store) | Inr pat \<Rightarrow>
           case (case pat of JStr r \<Rightarrow> re_compile e r
                 | _ \<Rightarrow> Inl (TypeError ''first argument must be string or compiled pattern''))
           of Inl err \<Rightarrow> (Inl err, store) | Inr search \<Rightarrow>
           case py_get args ''path'' (JStr ''.'') of Inl err \<Rightarrow> (Inl err, store) | Inr path \<Rightarrow>
           case py_concat path (JStr ''/**'') of Inl err \<Rightarrow> (Inl err, store) | Inr pattern \<Rightarrow>
           let hits = grep_paths search store (glob_paths e store pattern) []
           in (Inr (py_or (py_join [newline] (take 50 hits)) ''none''), store))"

subsection \<open>bash (lines 125 to 144)\<close>

text \<open>
  The reading loop. \<open>now\<close> is the second at which the loop stands. \<^verbatim>\<open>readline\<close>
  blocks until the next line is there, or until the pipe is at end of file, where it
  returns the empty string. The loop leaves only when \<^verbatim>\<open>readline\<close> returned the empty
  string and \<^verbatim>\<open>proc.poll()\<close> found the process gone: at end of file with the process
  still running, the loop goes round (each \<^verbatim>\<open>readline\<close> returning at once) until the
  process exits. Nothing in the loop looks at a clock.
\<close>

definition exited :: "proc \<Rightarrow> nat \<Rightarrow> bool" where
  "exited p now = (case exit_at p of None \<Rightarrow> False | Some tx \<Rightarrow> tx \<le> now)"

fun read_loop :: "proc \<Rightarrow> nat \<Rightarrow> (nat \<times> string) list \<Rightarrow> string list \<Rightarrow> (nat \<times> string list) option" where
  "read_loop p now [] output_lines =
     (case eof_at p of
        None \<Rightarrow> None
      | Some te \<Rightarrow>
          (case exit_at p of
             None \<Rightarrow> None
           | Some tx \<Rightarrow> Some (max (max now te) tx, output_lines)))"
| "read_loop p now ((t, line) # rest) output_lines =
     (if line = [] \<and> exited p (max now t) then Some (max now t, output_lines)
      else read_loop p (max now t) rest
             (if line \<noteq> [] then output_lines @ [line] else output_lines))"

text \<open>
  \<^verbatim>\<open>proc.wait(timeout=30)\<close>, called at second \<open>now\<close>: it returns when the process has
  exited by \<open>now + timeout\<close> and raises \<^verbatim>\<open>TimeoutExpired\<close> otherwise.
\<close>

definition wait_times_out :: "proc \<Rightarrow> nat \<Rightarrow> nat \<Rightarrow> bool" where
  "wait_times_out p now timeout = (\<not> exited p (now + timeout))"

definition wait_returns_at :: "proc \<Rightarrow> nat \<Rightarrow> nat" where
  "wait_returns_at p now = (case exit_at p of None \<Rightarrow> now | Some tx \<Rightarrow> max now tx)"

record bash_result =
  res_text :: string
  killed :: bool
  elapsed :: nat

definition timeout_marker :: string where
  "timeout_marker = newline # ''(timed out after 30s)''"

definition bash_proc :: "proc \<Rightarrow> bash_result option" where
  "bash_proc p =
     (case read_loop p 0 (out_lines p) [] of
        None \<Rightarrow> None
      | Some (now, output_lines) \<Rightarrow>
          if wait_times_out p now 30
          then Some \<lparr>res_text = py_or (py_strip (concat (output_lines @ [timeout_marker]))) ''(empty)'',
                     killed = True, elapsed = now + 30\<rparr>
          else Some \<lparr>res_text = py_or (py_strip (concat output_lines)) ''(empty)'',
                     killed = False, elapsed = wait_returns_at p now\<rparr>)"

definition bash :: tool where
  "bash e store args =
     (case py_getitem args ''cmd'' of Inl err \<Rightarrow> Some (Inl err, store) | Inr cmd \<Rightarrow>
      case popen e store cmd of Inl err \<Rightarrow> Some (Inl err, store) | Inr (p, store') \<Rightarrow>
      case bash_proc p of None \<Rightarrow> None | Some r \<Rightarrow> Some (Inr (res_text r), store'))"

section \<open>The tool registry\<close>

text \<open>
  \<^verbatim>\<open>TOOLS\<close> (lines 149 to 180): name, description, parameter schema, function. The
  schema is the dict of the source, in its order; a type name ending in \<^verbatim>\<open>?\<close> marks
  an optional parameter.
\<close>

definition TOOLS :: "(string \<times> string \<times> (string \<times> string) list \<times> tool) list" where
  "TOOLS =
     [(''read'', ''Read file with line numbers (file path, not directory)'',
         [(''path'', ''string''), (''offset'', ''number?''), (''limit'', ''number?'')], read),
      (''write'', ''Write content to file'',
         [(''path'', ''string''), (''content'', ''string'')], write_tool),
      (''edit'', ''Replace old with new in file (old must be unique unless all=true)'',
         [(''path'', ''string''), (''old'', ''string''), (''new'', ''string''), (''all'', ''boolean?'')],
         edit),
      (''glob'', ''Find files by pattern, sorted by mtime'',
         [(''pat'', ''string''), (''path'', ''string?'')], glob),
      (''grep'', ''Search files for regex pattern'',
         [(''pat'', ''string''), (''path'', ''string?'')], grep),
      (''bash'', ''Run shell command'', [(''cmd'', ''string'')], bash)]"

text \<open>
  \<^verbatim>\<open>TOOLS[name]\<close>: a list or a dict is not hashable; any other value that is not a
  registered name is a missing key.
\<close>

fun tools_lookup :: "json \<Rightarrow> exn + (string \<times> (string \<times> string) list \<times> tool)" where
  "tools_lookup (JStr name) =
     (case map_of TOOLS name of None \<Rightarrow> Inl (KeyError (py_quote name)) | Some entry \<Rightarrow> Inr entry)"
| "tools_lookup (JList xs) = Inl (TypeError ''unhashable type: list'')"
| "tools_lookup (JDict kvs) = Inl (TypeError ''unhashable type: dict'')"
| "tools_lookup JNull = Inl (KeyError ''None'')"
| "tools_lookup (JBool b) = Inl (KeyError (if b then ''True'' else ''False''))"
| "tools_lookup (JInt n) = Inl (KeyError (str_of_int n))"

text \<open>
  \<^verbatim>\<open>run_tool\<close> (lines 183 to 187): the lookup and the call stand in one \<^verbatim>\<open>try\<close> block
  whose handler catches \<^verbatim>\<open>Exception\<close> and returns the rendered message. \<open>None\<close>: the
  tool never returned.
\<close>

definition error_text :: "exn \<Rightarrow> string" where
  "error_text err = ''error: '' @ exn_str err"

definition run_tool :: "env \<Rightarrow> fs \<Rightarrow> json \<Rightarrow> json \<Rightarrow> (string \<times> fs) option" where
  "run_tool e store name args =
     (case tools_lookup name of
        Inl err \<Rightarrow> Some (error_text err, store)
      | Inr (description, params, fn) \<Rightarrow>
          (case fn e store args of
             None \<Rightarrow> None
           | Some (Inl err, store') \<Rightarrow> Some (error_text err, store')
           | Some (Inr result, store') \<Rightarrow> Some (result, store')))"

section \<open>The Gemini response decoder\<close>

text \<open>
  \<^verbatim>\<open>convert_gemini_response\<close> (nanocode.py, lines 272 to 297). The loop over the parts
  appends one block per part that has a \<^verbatim>\<open>text\<close> or a \<^verbatim>\<open>functionCall\<close> entry; the dict
  literal of a tool-use block evaluates its values from left to right, so the identifier
  \<^verbatim>\<open>fc.get("name", "unknown") + "_call"\<close> is computed before \<^verbatim>\<open>fc["name"]\<close> is read.
\<close>

definition text_block :: "json \<Rightarrow> json" where
  "text_block t = JDict [(''type'', JStr ''text''), (''text'', t)]"

definition tool_use_block :: "json \<Rightarrow> json \<Rightarrow> json \<Rightarrow> json" where
  "tool_use_block i n a =
     JDict [(''type'', JStr ''tool_use''), (''id'', i), (''name'', n), (''input'', a)]"

definition gemini_function_call :: "json \<Rightarrow> exn + json" where
  "gemini_function_call fc =
     (case py_get fc ''name'' (JStr ''unknown'') of Inl e \<Rightarrow> Inl e | Inr nm \<Rightarrow>
      case py_add_str nm ''_call'' of Inl e \<Rightarrow> Inl e | Inr ident \<Rightarrow>
      case py_getitem fc ''name'' of Inl e \<Rightarrow> Inl e | Inr name \<Rightarrow>
      case py_get fc ''args'' (JDict []) of Inl e \<Rightarrow> Inl e | Inr args \<Rightarrow>
      Inr (tool_use_block ident name args))"

definition gemini_part :: "json \<Rightarrow> exn + json list" where
  "gemini_part part =
     (case py_in ''text'' part of Inl e \<Rightarrow> Inl e | Inr has_text \<Rightarrow>
      if has_text then
        (case py_getitem part ''text'' of Inl e \<Rightarrow> Inl e | Inr t \<Rightarrow> Inr [text_block t])
      else
        (case py_in ''functionCall'' part of Inl e \<Rightarrow> Inl e | Inr has_fc \<Rightarrow>
         if has_fc then
           (case py_getitem part ''functionCall'' of Inl e \<Rightarrow> Inl e | Inr fc \<Rightarrow>
            case gemini_function_call fc of Inl e \<Rightarrow> Inl e | Inr b \<Rightarrow> Inr [b])
         else Inr []))"

fun gemini_parts :: "json list \<Rightarrow> json list \<Rightarrow> exn + json list" where
  "gemini_parts [] content_blocks = Inr content_blocks"
| "gemini_parts (part # parts) content_blocks =
     (case gemini_part part of Inl e \<Rightarrow> Inl e
      | Inr bs \<Rightarrow> gemini_parts parts (content_blocks @ bs))"

definition no_response :: json where
  "no_response = JDict [(''content'', JList [text_block (JStr ''No response from Gemini.'')])]"

definition empty_response :: json where
  "empty_response = JDict [(''content'', JList [text_block (JStr ''Empty response from Gemini.'')])]"

definition convert_gemini_response :: "json \<Rightarrow> exn + json" where
  "convert_gemini_response gemini_response =
     (case py_in ''candidates'' gemini_response of Inl e \<Rightarrow> Inl e | Inr has_cands \<Rightarrow>
      if \<not> has_cands then Inr no_response else
      case py_getitem gemini_response ''candidates'' of Inl e \<Rightarrow> Inl e | Inr cands \<Rightarrow>
      if \<not> py_truthy cands then Inr no_response else
      case py_first cands of Inl e \<Rightarrow> Inl e | Inr candidate \<Rightarrow>
      case py_in ''content'' candidate of Inl e \<Rightarrow> Inl e | Inr has_content \<Rightarrow>
      if \<not> has_content then Inr empty_response else
      case py_getitem candidate ''content'' of Inl e \<Rightarrow> Inl e | Inr content \<Rightarrow>
      case py_get content ''parts'' (JList []) of Inl e \<Rightarrow> Inl e | Inr parts \<Rightarrow>
      case py_iter parts of Inl e \<Rightarrow> Inl e | Inr ps \<Rightarrow>
      case gemini_parts ps [] of Inl e \<Rightarrow> Inl e | Inr content_blocks \<Rightarrow>
      Inr (JDict [(''content'', JList content_blocks)]))"

section \<open>Provider adapters\<close>

text \<open>
  The provider is chosen once from the environment (lines 12 to 23). The description of
  the model, the endpoint and the credentials do not enter what follows.
\<close>

datatype provider = Gemini | OpenRouter | Anthropic

subsection \<open>make_schema (lines 190 to 235)\<close>

definition is_optional :: "string \<Rightarrow> bool" where
  "is_optional param_type = suffix ''?'' param_type"

definition base_type :: "string \<Rightarrow> string" where
  "base_type param_type = rev (dropWhile (\<lambda>c. c = CHR ''?'') (rev param_type))"

definition schema_type :: "provider \<Rightarrow> string \<Rightarrow> string" where
  "schema_type prov bt =
     (if prov = Gemini \<and> bt = ''string'' then ''STRING''
      else if prov = Gemini \<and> bt = ''number'' then ''NUMBER''
      else if prov = Gemini \<and> bt = ''boolean'' then ''BOOLEAN''
      else if bt = ''number'' then ''integer'' else bt)"

fun schema_params ::
  "provider \<Rightarrow> (string \<times> string) list \<Rightarrow> (string \<times> json) list \<Rightarrow> json list
     \<Rightarrow> (string \<times> json) list \<times> json list" where
  "schema_params prov [] properties required = (properties, required)"
| "schema_params prov ((param_name, param_type) # rest) properties required =
     schema_params prov rest
       (AList.update param_name
          (JDict [(''type'', JStr (schema_type prov (base_type param_type)))]) properties)
       (if is_optional param_type then required else required @ [JStr param_name])"

definition schema_entry :: "provider \<Rightarrow> string \<times> string \<times> (string \<times> string) list \<times> tool \<Rightarrow> json" where
  "schema_entry prov entry =
     (case entry of (name, description, params, fn) \<Rightarrow>
      case schema_params prov params [] [] of (properties, required) \<Rightarrow>
      if prov = Gemini then
        JDict [(''name'', JStr name), (''description'', JStr description),
               (''parameters'', JDict [(''type'', JStr ''OBJECT''),
                                        (''properties'', JDict properties),
                                        (''required'', JList required)])]
      else
        JDict [(''name'', JStr name), (''description'', JStr description),
               (''input_schema'', JDict [(''type'', JStr ''object''),
                                          (''properties'', JDict properties),
                                          (''required'', JList required)])])"

definition make_schema :: "provider \<Rightarrow> json list" where
  "make_schema prov = map (schema_entry prov) TOOLS"

text \<open>
  The type tag that the schema of provider \<open>prov\<close> holds for parameter \<open>param\<close> of
  tool \<open>name\<close>, read back from the value \<open>make_schema\<close> returns.
\<close>

definition emitted_tag :: "provider \<Rightarrow> string \<Rightarrow> string \<Rightarrow> exn + json" where
  "emitted_tag prov name param =
     (case find (\<lambda>entry. py_getitem entry ''name'' = Inr (JStr name)) (make_schema prov) of
        None \<Rightarrow> Inl (KeyError (py_quote name))
      | Some entry \<Rightarrow>
          (case py_getitem entry (if prov = Gemini then ''parameters'' else ''input_schema'') of
             Inl err \<Rightarrow> Inl err | Inr schema \<Rightarrow>
           case py_getitem schema ''properties'' of Inl err \<Rightarrow> Inl err | Inr properties \<Rightarrow>
           case py_getitem properties param of Inl err \<Rightarrow> Inl err | Inr prop_def \<Rightarrow>
           py_getitem prop_def ''type''))"

text \<open>\<^verbatim>\<open>str.upper\<close> and \<^verbatim>\<open>str.islower\<close> on ASCII letters, to compare the tags.\<close>

definition py_upper :: "string \<Rightarrow> string" where
  "py_upper s =
     map (\<lambda>c. let n = (of_char c :: nat) in if 97 \<le> n \<and> n \<le> 122 then char_of (n - 32) else c) s"

definition lowercase_token :: "string \<Rightarrow> bool" where
  "lowercase_token s = (s \<noteq> [] \<and> (\<forall>c \<in> set s. 97 \<le> (of_char c :: nat) \<and> (of_char c :: nat) \<le> 122))"

subsection \<open>convert_messages_to_gemini (lines 238 to 269)\<close>

definition gemini_item :: "json \<Rightarrow> exn + json list" where
  "gemini_item item =
     (case py_getitem item ''type'' of Inl err \<Rightarrow> Inl err | Inr ty \<Rightarrow>
      if ty = JStr ''text'' then
        (case py_getitem item ''text'' of Inl err \<Rightarrow> Inl err
         | Inr t \<Rightarrow> Inr [JDict [(''text'', t)]])
      else if ty = JStr ''tool_use'' then
        (case py_getitem item ''name'' of Inl err \<Rightarrow> Inl err | Inr name \<Rightarrow>
         case py_getitem item ''input'' of Inl err \<Rightarrow> Inl err | Inr input \<Rightarrow>
         Inr [JDict [(''functionCall'', JDict [(''name'', name), (''args'', input)])]])
      else if ty = JStr ''tool_result'' then
        (case py_getitem item ''content'' of Inl err \<Rightarrow> Inl err | Inr content \<Rightarrow>
         Inr [JDict [(''functionResponse'',
                      JDict [(''name'', JStr ''tool_result''),
                             (''response'', JDict [(''result'', content)])])]])
      else Inr [])"

fun gemini_items :: "json list \<Rightarrow> json list \<Rightarrow> exn + json list" where
  "gemini_items [] parts = Inr parts"
| "gemini_items (item # items) parts =
     (case gemini_item item of Inl err \<Rightarrow> Inl err
      | Inr ps \<Rightarrow> gemini_items items (parts @ ps))"

definition gemini_message :: "json \<Rightarrow> exn + json list" where
  "gemini_message msg =
     (case py_getitem msg ''role'' of Inl err \<Rightarrow> Inl err | Inr r \<Rightarrow>
      let role = (if r = JStr ''user'' then ''user'' else ''model'') in
      case py_getitem msg ''content'' of Inl err \<Rightarrow> Inl err | Inr content \<Rightarrow>
      case content of
        JStr txt \<Rightarrow>
          Inr [JDict [(''role'', JStr role), (''parts'', JList [JDict [(''text'', JStr txt)]])]]
      | JList items \<Rightarrow>
          (case gemini_items items [] of Inl err \<Rightarrow> Inl err
           | Inr parts \<Rightarrow>
               if parts \<noteq> [] then Inr [JDict [(''role'', JStr role), (''parts'', JList parts)]]
               else Inr [])
      | _ \<Rightarrow> Inr [])"

fun convert_messages_to_gemini :: "json list \<Rightarrow> json list \<Rightarrow> exn + json list" where
  "convert_messages_to_gemini [] contents = Inr contents"
| "convert_messages_to_gemini (msg # msgs) contents =
     (case gemini_message msg of Inl err \<Rightarrow> Inl err
      | Inr cs \<Rightarrow> convert_messages_to_gemini msgs (contents @ cs))"

subsection \<open>call_api (lines 300 to 341)\<close>

record config =
  provider :: provider
  model :: string
  system_prompt :: string

text \<open>The request body of one call: what the provider is sent.\<close>

definition request_payload :: "config \<Rightarrow> json list \<Rightarrow> exn + json" where
  "request_payload cfg msgs =
     (if provider cfg = Gemini then
        (case convert_messages_to_gemini msgs [] of Inl err \<Rightarrow> Inl err
         | Inr contents \<Rightarrow>
             Inr (JDict [(''contents'', JList contents),
                         (''tools'', JList [JDict [(''functionDeclarations'',
                                                     JList (make_schema Gemini))]]),
                         (''systemInstruction'',
                            JDict [(''parts'', JList [JDict [(''text'', JStr (system_prompt cfg))]])])]))
      else
        Inr (JDict [(''model'', JStr (model cfg)), (''max_tokens'', JInt 8192),
                    (''system'', JStr (system_prompt cfg)), (''messages'', JList msgs),
                    (''tools'', JList (make_schema (provider cfg)))]))"

text \<open>
  The exchange itself is a parameter: \<open>reply\<close> is what \<^verbatim>\<open>urlopen\<close> and \<^verbatim>\<open>json.loads\<close>
  give for this call, the parsed body or the exception they raise.
\<close>

definition call_api :: "config \<Rightarrow> json list \<Rightarrow> exn + json \<Rightarrow> exn + json" where
  "call_api cfg msgs reply =
     (case request_payload cfg msgs of Inl err \<Rightarrow> Inl err | Inr payload \<Rightarrow>
      case reply of Inl err \<Rightarrow> Inl err | Inr body \<Rightarrow>
      if provider cfg = Gemini then convert_gemini_response body else Inr body)"

section \<open>The agent loop\<close>

text \<open>
  \<^verbatim>\<open>main\<close> (lines 352 to 426). Its state is the conversation \<^verbatim>\<open>messages\<close>, the file
  store the tools work on, and what has been printed. Of the printing only the notices
  are kept (a text block, the clearing of the conversation, the system information, an
  error); the traces of tool calls and the separators are terminal rendering and are left
  out, though the exceptions their expressions can raise are not.
\<close>

datatype notice = ShowText string | ShowCleared | ShowInfo | ShowError string

record state =
  messages :: "json list"
  fstore :: fs
  printed :: "notice list"

text \<open>
  How a piece of the loop ends, with the state it has reached: it completes; an exception
  propagates out of it; a tool never returns; or it stands at a provider call for which
  no reply has come.
\<close>

datatype 'a outcome = Done 'a | Raised exn 'a | Stuck 'a | Pending 'a

fun reached :: "'a outcome \<Rightarrow> 'a" where
  "reached (Done x) = x"
| "reached (Raised err x) = x"
| "reached (Stuck x) = x"
| "reached (Pending x) = x"

text \<open>The body of the \<^verbatim>\<open>for block in content_blocks\<close> loop (lines 386 to 413).\<close>

record turn =
  turn_store :: fs
  turn_printed :: "notice list"
  tool_results :: "json list"

definition tool_result_block :: "json \<Rightarrow> string \<Rightarrow> json" where
  "tool_result_block ident result =
     JDict [(''type'', JStr ''tool_result''), (''tool_use_id'', ident), (''content'', JStr result)]"

text \<open>
  Line 393, \<^verbatim>\<open>list(tool_args.values())[0]\<close>, needs a dict with at least one entry; line
  395, \<^verbatim>\<open>tool_name.capitalize()\<close>, needs a string.
\<close>

fun arg_preview :: "json \<Rightarrow> exn + unit" where
  "arg_preview (JDict []) = Inl (IndexError ''list index out of range'')"
| "arg_preview (JDict (kv # kvs)) = Inr ()"
| "arg_preview v = Inl (AttributeError ''object has no attribute values'')"

fun capitalize_check :: "json \<Rightarrow> exn + unit" where
  "capitalize_check (JStr name) = Inr ()"
| "capitalize_check v = Inl (AttributeError ''object has no attribute capitalize'')"

definition show_text :: "turn \<Rightarrow> json \<Rightarrow> turn outcome" where
  "show_text t block =
     (case py_getitem block ''text'' of Inl err \<Rightarrow> Raised err t | Inr v \<Rightarrow>
      case v of
        JStr txt \<Rightarrow> Done (t\<lparr>turn_printed := turn_printed t @ [ShowText txt]\<rparr>)
      | _ \<Rightarrow> Raised (TypeError ''expected string or bytes-like object'') t)"

definition use_tool :: "env \<Rightarrow> turn \<Rightarrow> json \<Rightarrow> turn outcome" where
  "use_tool e t block =
     (case py_getitem block ''name'' of Inl err \<Rightarrow> Raised err t | Inr tool_name \<Rightarrow>
      case py_getitem block ''input'' of Inl err \<Rightarrow> Raised err t | Inr tool_args \<Rightarrow>
      case arg_preview tool_args of Inl err \<Rightarrow> Raised err t | Inr u \<Rightarrow>
      case capitalize_check tool_name of Inl err \<Rightarrow> Raised err t | Inr u \<Rightarrow>
      case run_tool e (turn_store t) tool_name tool_args of
        None \<Rightarrow> Stuck t
      | Some (result, store') \<Rightarrow>
          (case py_getitem block ''id'' of
             Inl err \<Rightarrow> Raised err (t\<lparr>turn_store := store'\<rparr>)
           | Inr ident \<Rightarrow>
               Done (t\<lparr>turn_store := store',
                       tool_results := tool_results t @ [tool_result_block ident result]\<rparr>)))"

definition process_block :: "env \<Rightarrow> turn \<Rightarrow> json \<Rightarrow> turn outcome" where
  "process_block e t block =
     (case py_getitem block ''type'' of Inl err \<Rightarrow> Raised err t | Inr ty \<Rightarrow>
      case (if ty = JStr ''text'' then show_text t block else Done t) of
        Done t1 \<Rightarrow> (if ty = JStr ''tool_use'' then use_tool e t1 block else Done t1)
      | other \<Rightarrow> other)"

fun process_blocks :: "env \<Rightarrow> turn \<Rightarrow> json list \<Rightarrow> turn outcome" where
  "process_blocks e t [] = Done t"
| "process_blocks e t (block # blocks) =
     (case process_block e t block of
        Done t1 \<Rightarrow> process_blocks e t1 blocks
      | other \<Rightarrow> other)"

definition message :: "string \<Rightarrow> json \<Rightarrow> json" where
  "message role content = JDict [(''role'', JStr role), (''content'', content)]"

definition after_blocks :: "state \<Rightarrow> turn \<Rightarrow> state" where
  "after_blocks s t = s\<lparr>fstore := turn_store t, printed := turn_printed t\<rparr>"

text \<open>
  The inner \<^verbatim>\<open>while True\<close> loop (lines 381 to 419), over the replies the provider gives
  to the successive calls. The loop has no bound of its own: it runs for as long as the
  replies ask for tools.
\<close>

fun agent_loop ::
  "config \<Rightarrow> env \<Rightarrow> state \<Rightarrow> (exn + json) list \<Rightarrow> (state \<times> (exn + json) list) outcome" where
  "agent_loop cfg e s [] =
     (case request_payload cfg (messages s) of
        Inl err \<Rightarrow> Raised err (s, [])
      | Inr payload \<Rightarrow> Pending (s, []))"
| "agent_loop cfg e s (reply # replies) =
     (case call_api cfg (messages s) reply of Inl err \<Rightarrow> Raised err (s, replies) | Inr response \<Rightarrow>
      case py_get response ''content'' (JList []) of
        Inl err \<Rightarrow> Raised err (s, replies) | Inr content_blocks \<Rightarrow>
      case py_iter content_blocks of Inl err \<Rightarrow> Raised err (s, replies) | Inr blocks \<Rightarrow>
      case process_blocks e \<lparr>turn_store = fstore s, turn_printed = printed s, tool_results = []\<rparr> blocks of
        Raised err t \<Rightarrow> Raised err (after_blocks s t, replies)
      | Stuck t \<Rightarrow> Stuck (after_blocks s t, replies)
      | Pending t \<Rightarrow> Pending (after_blocks s t, replies)
      | Done t \<Rightarrow>
          let s1 = (after_blocks s t)\<lparr>messages := messages s @ [message ''assistant'' content_blocks]\<rparr>
          in if tool_results t = [] then Done (s1, replies)
             else agent_loop cfg e
                    (s1\<lparr>messages := messages s1 @ [message ''user'' (JList (tool_results t))]\<rparr>)
                    replies)"

text \<open>
  The outer loop (lines 361 to 426), over the lines typed at the prompt; the end of the
  input raises \<^verbatim>\<open>EOFError\<close>, which leaves the loop. An exception out of the inner loop
  is printed and the next line is read.
\<close>

fun main_loop ::
  "config \<Rightarrow> env \<Rightarrow> state \<Rightarrow> (exn + json) list \<Rightarrow> string list
     \<Rightarrow> (state \<times> (exn + json) list) outcome" where
  "main_loop cfg e s replies [] = Done (s, replies)"
| "main_loop cfg e s replies (line # lines) =
     (let user_input = py_strip line in
      if user_input = [] then main_loop cfg e s replies lines
      else if user_input = ''/q'' \<or> user_input = ''exit'' then Done (s, replies)
      else if user_input = ''/c''
        then main_loop cfg e (s\<lparr>messages := [], printed := printed s @ [ShowCleared]\<rparr>) replies lines
      else if user_input = ''/i''
        then main_loop cfg e (s\<lparr>printed := printed s @ [ShowInfo]\<rparr>) replies lines
      else
        (case agent_loop cfg e (s\<lparr>messages := messages s @ [message ''user'' (JStr user_input)]\<rparr>) replies of
           Done (s', replies') \<Rightarrow> main_loop cfg e s' replies' lines
         | Raised err (s', replies') \<Rightarrow>
             main_loop cfg e (s'\<lparr>printed := printed s' @ [ShowError (exn_str err)]\<rparr>) replies' lines
         | other \<Rightarrow> other))"

definition main :: "config \<Rightarrow> env \<Rightarrow> fs \<Rightarrow> (exn + json) list \<Rightarrow> string list
     \<Rightarrow> (state \<times> (exn + json) list) outcome" where
  "main cfg e store0 replies lines =
     main_loop cfg e \<lparr>messages = [], fstore = store0, printed = []\<rparr> replies lines"

section \<open>Auxiliary notions for the properties\<close>

text \<open>Every parameter of every registered tool, with the tool's name and the type name.\<close>

definition tool_params :: "(string \<times> string \<times> string) list" where
  "tool_params =
     concat (map (\<lambda>(name, description, params, fn). map (\<lambda>(p, t). (name, p, t)) params) TOOLS)"

text \<open>
  A small environment for concrete runs: no path matches any glob pattern, a regular
  expression is searched as a literal substring, and every command is a process that
  writes nothing and exits at once.
\<close>

definition sample_env :: env where
  "sample_env =
     \<lparr>glob_paths = (\<lambda>store pattern. []),
      getmtime = (\<lambda>f. 0),
      re_compile = (\<lambda>r. Inr (sublist r)),
      popen = (\<lambda>store cmd. Inr (\<lparr>out_lines = [], eof_at = Some 0, exit_at = Some 0\<rparr>, store))\<rparr>"

section \<open>Properties of the Gemini decoder\<close>

text \<open>
  Claim C5. A Gemini response (a JSON object) whose \<^verbatim>\<open>candidates\<close> entry is absent, or
  present and empty (any falsy value: the empty list, \<^verbatim>\<open>null\<close>), decodes without an
  exception to a response whose content is exactly one text block with the fixed notice
  \<^verbatim>\<open>No response from Gemini.\<close>
\<close>

theorem convert_gemini_response_no_candidates:
  assumes "case map_of kvs ''candidates'' of None \<Rightarrow> True | Some c \<Rightarrow> \<not> py_truthy c"
  shows "convert_gemini_response (JDict kvs) =
           Inr (JDict [(''content'',
                  JList [JDict [(''type'', JStr ''text''),
                                (''text'', JStr ''No response from Gemini.'')]])])"
proof (cases "map_of kvs ''candidates''")
  case None
  then have "''candidates'' \<notin> set (map fst kvs)"
    by (simp add: map_of_eq_None_iff)
  then show ?thesis
    by (simp add: convert_gemini_response_def no_response_def text_block_def)
next
  case (Some c)
  then have "''candidates'' \<in> set (map fst kvs)"
    by (metis map_of_eq_None_iff option.distinct(1) set_map)
  with Some assms show ?thesis
    by (simp add: convert_gemini_response_def no_response_def text_block_def)
qed

theorem convert_gemini_response_no_candidates_witness:
  "convert_gemini_response (JDict []) =
     Inr (JDict [(''content'',
            JList [JDict [(''type'', JStr ''text''), (''text'', JStr ''No response from Gemini.'')]])])
   \<and> convert_gemini_response (JDict [(''candidates'', JList [])]) =
     Inr (JDict [(''content'',
            JList [JDict [(''type'', JStr ''text''), (''text'', JStr ''No response from Gemini.'')]])])"
  using convert_gemini_response_no_candidates [of "[]"]
    convert_gemini_response_no_candidates [of "[(''candidates'', JList [])]"]
  by simp

text \<open>
  Claim C10. The identifier of a decoded tool-use block is the name of the function call
  with \<^verbatim>\<open>_call\<close> appended, and the source gives the default \<^verbatim>\<open>unknown\<close> for an absent
  name. The default is never used: the next entry of the same dict literal reads
  \<^verbatim>\<open>fc["name"]\<close>, so a function call without a name makes the whole decoding raise
  \<^verbatim>\<open>KeyError\<close> and no block with the identifier \<^verbatim>\<open>unknown_call\<close> is produced.
\<close>

theorem convert_gemini_response_call_without_name:
  "convert_gemini_response
     (JDict [(''candidates'',
        JList [JDict [(''content'',
          JDict [(''parts'',
            JList [JDict [(''functionCall'', JDict [(''args'', JDict [])])]])])]])])
   = Inl (KeyError (py_quote ''name''))"
  by (simp add: convert_gemini_response_def gemini_part_def gemini_function_call_def)

section \<open>Properties of the shell tool\<close>

text \<open>
  The reading loop returns only once the process has exited, so the \<^verbatim>\<open>wait\<close> that
  follows it returns at once and the handler of \<^verbatim>\<open>TimeoutExpired\<close> is never entered.
\<close>

lemma read_loop_exited:
  "read_loop p now pending acc = Some (t, ls) \<Longrightarrow> exited p t"
  by (induction p now pending acc rule: read_loop.induct)
     (auto simp: exited_def split: option.splits if_splits)

lemma bash_proc_never_kills: "bash_proc p = Some r \<Longrightarrow> \<not> killed r"
  by (auto simp: bash_proc_def wait_times_out_def exited_def
           split: option.splits if_splits dest!: read_loop_exited)

lemma bash_proc_waits_for_exit:
  "bash_proc p = Some r \<Longrightarrow> \<exists>tx. exit_at p = Some tx \<and> tx \<le> elapsed r"
  by (auto simp: bash_proc_def wait_times_out_def wait_returns_at_def exited_def
           split: option.splits if_splits dest!: read_loop_exited)

text \<open>
  Claim C2. A command that runs for 60 seconds without output (\<^verbatim>\<open>sleep 60\<close>: the pipe
  reaches end of file and the shell exits at second 60) is not stopped at 30 seconds:
  the tool returns after 60 seconds, the process was not killed, and the result is
  \<^verbatim>\<open>(empty)\<close> with no timeout marker.
\<close>

theorem bash_sleep_60_runs_to_completion:
  "bash_proc \<lparr>out_lines = [], eof_at = Some 60, exit_at = Some 60\<rparr>
     = Some \<lparr>res_text = ''(empty)'', killed = False, elapsed = 60\<rparr>"
  by (simp add: bash_proc_def wait_times_out_def wait_returns_at_def exited_def
        py_or_def py_strip_def py_rstrip_def)

section \<open>Properties of the schema\<close>

lemma py_upper_tags:
  "py_upper ''string'' = ''STRING''" "py_upper ''number'' = ''NUMBER''"
  "py_upper ''boolean'' = ''BOOLEAN''" "py_upper ''integer'' = ''INTEGER''"
  by code_simp+

lemma lowercase_tags:
  "lowercase_token ''string''" "lowercase_token ''integer''" "lowercase_token ''boolean''"
  by code_simp+

lemma base_type_values:
  "base_type ''string'' = ''string''" "base_type ''string?'' = ''string''"
  "base_type ''number?'' = ''number''" "base_type ''boolean?'' = ''boolean''"
  by (simp_all add: base_type_def)

lemma tool_params_eq:
  "tool_params =
    [(''read'', ''path'', ''string''), (''read'', ''offset'', ''number?''), (''read'', ''limit'', ''number?''),
     (''write'', ''path'', ''string''), (''write'', ''content'', ''string''),
     (''edit'', ''path'', ''string''), (''edit'', ''old'', ''string''), (''edit'', ''new'', ''string''),
     (''edit'', ''all'', ''boolean?''),
     (''glob'', ''pat'', ''string''), (''glob'', ''path'', ''string?''),
     (''grep'', ''pat'', ''string''), (''grep'', ''path'', ''string?''),
     (''bash'', ''cmd'', ''string'')]"
  by (simp add: tool_params_def TOOLS_def)

lemma tool_params_mem:
  "(name, description, params, fn) \<in> set TOOLS \<Longrightarrow> (p, t) \<in> set params
     \<Longrightarrow> (name, p, t) \<in> set tool_params"
  by (force simp: tool_params_def)

lemma emitted_tag_each:
  "\<forall>(name, p, t) \<in> set tool_params.
     base_type t \<in> {''string'', ''number'', ''boolean''}
    \<and> emitted_tag Anthropic name p =
         Inr (JStr (if base_type t = ''number'' then ''integer'' else base_type t))
    \<and> emitted_tag OpenRouter name p =
         Inr (JStr (if base_type t = ''number'' then ''integer'' else base_type t))
    \<and> emitted_tag Gemini name p = Inr (JStr (py_upper (base_type t)))"
  unfolding tool_params_eq
  by (simp add: base_type_values py_upper_tags emitted_tag_def make_schema_def TOOLS_def
        schema_entry_def schema_type_def is_optional_def)

text \<open>
  Claim C7, as stated, fails for the kind Number: for the parameter \<^verbatim>\<open>offset\<close> of the
  tool \<^verbatim>\<open>read\<close> the Anthropic schema holds \<^verbatim>\<open>integer\<close> and the Gemini schema holds
  \<^verbatim>\<open>NUMBER\<close>, which is not \<^verbatim>\<open>integer\<close> in upper case.
\<close>

theorem make_schema_number_tag_differs:
  "emitted_tag Anthropic ''read'' ''offset'' = Inr (JStr ''integer'')
   \<and> emitted_tag Gemini ''read'' ''offset'' = Inr (JStr ''NUMBER'')
   \<and> py_upper ''integer'' \<noteq> ''NUMBER''"
  by (simp add: emitted_tag_def make_schema_def TOOLS_def schema_entry_def schema_type_def
        base_type_def is_optional_def py_upper_tags)

text \<open>
  Claim C7, amended. For every parameter of every registered tool, the kind named by the
  descriptor is \<^verbatim>\<open>string\<close>, \<^verbatim>\<open>number\<close> or \<^verbatim>\<open>boolean\<close>. The Anthropic and OpenRouter
  schemas hold a lowercase token for it: the kind itself, except that \<^verbatim>\<open>number\<close> is
  emitted as \<^verbatim>\<open>integer\<close>. The Gemini schema holds the kind in upper case (\<^verbatim>\<open>STRING\<close>,
  \<^verbatim>\<open>NUMBER\<close>, \<^verbatim>\<open>BOOLEAN\<close>). So the Gemini tag is the other providers' tag in upper case
  exactly for the kinds other than \<^verbatim>\<open>number\<close>.
\<close>

theorem make_schema_type_tags:
  assumes "(name, description, params, fn) \<in> set TOOLS" and "(p, t) \<in> set params"
  shows "base_type t \<in> {''string'', ''number'', ''boolean''}
    \<and> emitted_tag Anthropic name p =
         Inr (JStr (if base_type t = ''number'' then ''integer'' else base_type t))
    \<and> emitted_tag OpenRouter name p =
         Inr (JStr (if base_type t = ''number'' then ''integer'' else base_type t))
    \<and> lowercase_token (if base_type t = ''number'' then ''integer'' else base_type t)
    \<and> emitted_tag Gemini name p = Inr (JStr (py_upper (base_type t)))
    \<and> (py_upper (base_type t) = py_upper (if base_type t = ''number'' then ''integer'' else base_type t)
         \<longleftrightarrow> base_type t \<noteq> ''number'')"
proof -
  from assms have "(name, p, t) \<in> set tool_params"
    by (rule tool_params_mem)
  with emitted_tag_each have tags:
    "base_type t \<in> {''string'', ''number'', ''boolean''}"
    "emitted_tag Anthropic name p =
       Inr (JStr (if base_type t = ''number'' then ''integer'' else base_type t))"
    "emitted_tag OpenRouter name p =
       Inr (JStr (if base_type t = ''number'' then ''integer'' else base_type t))"
    "emitted_tag Gemini name p = Inr (JStr (py_upper (base_type t)))"
    by blast+
  from tags(1) have "lowercase_token (if base_type t = ''number'' then ''integer'' else base_type t)"
    by (auto simp: lowercase_tags)
  moreover from tags(1) have
    "py_upper (base_type t) = py_upper (if base_type t = ''number'' then ''integer'' else base_type t)
       \<longleftrightarrow> base_type t \<noteq> ''number''"
    by (auto simp: py_upper_tags)
  ultimately show ?thesis using tags by blast
qed

theorem make_schema_type_tags_witness:
  "(''bash'', ''Run shell command'', [(''cmd'', ''string'')], bash) \<in> set TOOLS
   \<and> emitted_tag Anthropic ''bash'' ''cmd'' = Inr (JStr ''string'')
   \<and> emitted_tag Gemini ''bash'' ''cmd'' = Inr (JStr ''STRING'')"
proof -
  have mem: "(''bash'', ''Run shell command'', [(''cmd'', ''string'')], bash) \<in> set TOOLS"
    by (simp add: TOOLS_def)
  have par: "(''cmd'', ''string'') \<in> set [(''cmd'', ''string'')]"
    by simp
  from make_schema_type_tags [OF mem par] mem show ?thesis
    by (simp add: base_type_values py_upper_tags)
qed

section \<open>Properties of the registry\<close>

lemma tools_lookup_cases:
  assumes "tools_lookup name = Inr (description, params, fn)"
  shows "(name = JStr ''read'' \<and> fn = read) \<or> (name = JStr ''write'' \<and> fn = write_tool)
       \<or> (name = JStr ''edit'' \<and> fn = edit) \<or> (name = JStr ''glob'' \<and> fn = glob)
       \<or> (name = JStr ''grep'' \<and> fn = grep) \<or> (name = JStr ''bash'' \<and> fn = bash)"
  using assms
  by (cases name) (auto simp: TOOLS_def split: if_splits)

lemma tools_lookup_bash: "\<exists>d ps. tools_lookup (JStr ''bash'') = Inr (d, ps, bash)"
  by (simp add: TOOLS_def)

lemma tools_return:
  "read e store args \<noteq> None" "write_tool e store args \<noteq> None" "edit e store args \<noteq> None"
  "glob e store args \<noteq> None" "grep e store args \<noteq> None"
  by (simp_all add: read_def write_tool_def edit_def glob_def grep_def)

lemma run_tool_None_iff:
  "run_tool e store name args = None \<longleftrightarrow> (name = JStr ''bash'' \<and> bash e store args = None)"
proof (cases "tools_lookup name")
  case (Inl err)
  then have "name \<noteq> JStr ''bash''" using tools_lookup_bash by auto
  with Inl show ?thesis by (simp add: run_tool_def)
next
  case (Inr entry)
  obtain d ps fn where entry: "entry = (d, ps, fn)" by (cases entry)
  from Inr entry have look: "tools_lookup name = Inr (d, ps, fn)" by simp
  have "run_tool e store name args = None \<longleftrightarrow> fn e store args = None"
    using look by (auto simp: run_tool_def split: option.splits sum.splits prod.splits)
  moreover have "fn e store args = None \<longleftrightarrow> (name = JStr ''bash'' \<and> bash e store args = None)"
    using tools_lookup_cases [OF look] tools_return [of e store args] tools_lookup_bash look
    by auto
  ultimately show ?thesis by simp
qed

lemma use_tool_Done:
  assumes "use_tool e t block = Done t'"
  shows "\<exists>name args ident result store'.
           py_getitem block ''name'' = Inr name \<and> py_getitem block ''input'' = Inr args
         \<and> py_getitem block ''id'' = Inr ident
         \<and> run_tool e (turn_store t) name args = Some (result, store')
         \<and> t' = t\<lparr>turn_store := store', tool_results := tool_results t @ [tool_result_block ident result]\<rparr>"
  using assms
  by (auto simp: use_tool_def split: sum.splits option.splits prod.splits)

text \<open>
  Claim C1. \<open>run_tool\<close> never raises: for every tool name and every argument value it
  returns a string, except when the shell tool itself never returns. When the name is not
  registered, or the selected tool raises, the string is \<^verbatim>\<open>error: \<close> followed by the
  rendered exception. In the loop, the string \<open>run_tool\<close> returns is the content of
  the tool-result block that is appended for the call.
\<close>

theorem run_tool_never_raises:
  "(run_tool e store name args = None \<longleftrightarrow> name = JStr ''bash'' \<and> bash e store args = None)
   \<and> (\<forall>err. tools_lookup name = Inl err \<longrightarrow>
          run_tool e store name args = Some (''error: '' @ exn_str err, store))
   \<and> (\<forall>description params fn err store'.
          tools_lookup name = Inr (description, params, fn) \<longrightarrow>
          fn e store args = Some (Inl err, store') \<longrightarrow>
          run_tool e store name args = Some (''error: '' @ exn_str err, store'))
   \<and> (\<forall>t block t'.
          py_getitem block ''name'' = Inr name \<longrightarrow> py_getitem block ''input'' = Inr args \<longrightarrow>
          use_tool e t block = Done t' \<longrightarrow>
          (\<exists>ident result store'.
             run_tool e (turn_store t) name args = Some (result, store')
           \<and> py_getitem block ''id'' = Inr ident
           \<and> tool_results t' = tool_results t @
                [JDict [(''type'', JStr ''tool_result''), (''tool_use_id'', ident),
                        (''content'', JStr result)]]))"
proof (intro conjI allI impI)
  show "run_tool e store name args = None \<longleftrightarrow> name = JStr ''bash'' \<and> bash e store args = None"
    by (rule run_tool_None_iff)
next
  fix err assume "tools_lookup name = Inl err"
  then show "run_tool e store name args = Some (''error: '' @ exn_str err, store)"
    by (simp add: run_tool_def error_text_def)
next
  fix description params fn err store'
  assume "tools_lookup name = Inr (description, params, fn)"
    and "fn e store args = Some (Inl err, store')"
  then show "run_tool e store name args = Some (''error: '' @ exn_str err, store')"
    by (simp add: run_tool_def error_text_def)
next
  fix t block t'
  assume n: "py_getitem block ''name'' = Inr name" and a: "py_getitem block ''input'' = Inr args"
    and d: "use_tool e t block = Done t'"
  from use_tool_Done [OF d] n a
  show "\<exists>ident result store'.
             run_tool e (turn_store t) name args = Some (result, store')
           \<and> py_getitem block ''id'' = Inr ident
           \<and> tool_results t' = tool_results t @
                [JDict [(''type'', JStr ''tool_result''), (''tool_use_id'', ident),
                        (''content'', JStr result)]]"
    by (auto simp: tool_result_block_def)
qed

theorem run_tool_never_raises_witness:
  "run_tool sample_env Map.empty (JStr ''nosuch'') (JDict [])
     = Some (''error: '' @ py_quote ''nosuch'', Map.empty)
   \<and> run_tool sample_env Map.empty (JStr ''read'') (JDict [])
     = Some (''error: '' @ py_quote ''path'', Map.empty)
   \<and> use_tool sample_env \<lparr>turn_store = Map.empty, turn_printed = [], tool_results = []\<rparr>
        (JDict [(''type'', JStr ''tool_use''), (''id'', JStr ''t1''), (''name'', JStr ''read''),
                (''input'', JDict [(''offset'', JInt 0)])])
     = Done \<lparr>turn_store = Map.empty, turn_printed = [],
             tool_results = [JDict [(''type'', JStr ''tool_result''), (''tool_use_id'', JStr ''t1''),
                                    (''content'', JStr (''error: '' @ py_quote ''path''))]]\<rparr>"
proof -
  have look1: "tools_lookup (JStr ''nosuch'') = Inl (KeyError (py_quote ''nosuch''))"
    by (simp add: TOOLS_def)
  have look2: "\<exists>d ps. tools_lookup (JStr ''read'') = Inr (d, ps, read)"
    by (simp add: TOOLS_def)
  have raise: "read sample_env Map.empty (JDict []) = Some (Inl (KeyError (py_quote ''path'')), Map.empty)"
    by (simp add: read_def)
  have 1: "run_tool sample_env Map.empty (JStr ''nosuch'') (JDict [])
     = Some (''error: '' @ py_quote ''nosuch'', Map.empty)"
    using run_tool_never_raises [of sample_env Map.empty "JStr ''nosuch''" "JDict []"] look1
    by simp
  have 2: "run_tool sample_env Map.empty (JStr ''read'') (JDict [])
     = Some (''error: '' @ py_quote ''path'', Map.empty)"
    using run_tool_never_raises [of sample_env Map.empty "JStr ''read''" "JDict []"] look2 raise
    by fastforce
  have 3: "use_tool sample_env \<lparr>turn_store = Map.empty, turn_printed = [], tool_results = []\<rparr>
        (JDict [(''type'', JStr ''tool_use''), (''id'', JStr ''t1''), (''name'', JStr ''read''),
                (''input'', JDict [(''offset'', JInt 0)])])
     = Done \<lparr>turn_store = Map.empty, turn_printed = [],
             tool_results = [JDict [(''type'', JStr ''tool_result''), (''tool_use_id'', JStr ''t1''),
                                    (''content'', JStr (''error: '' @ py_quote ''path''))]]\<rparr>"
    by (simp add: use_tool_def run_tool_def TOOLS_def read_def error_text_def tool_result_block_def)
  from 1 2 3 show ?thesis by simp
qed

end
